theory Spec2Isabelle
  imports Complex_Main "HOL-Library.Word"
begin

section \<open>Errors and printed lines\<close>

text \<open>
  The Python exceptions that the modelled code can raise.  \<open>NotANumber\<close> is not an
  exception: it stands for the float NaN that the mean of an empty batch (0/0) yields,
  which has no counterpart among the real numbers the model computes with.
\<close>

datatype error =
    ZeroDivisionError
  | UnboundLocalError string
  | ValueError string
  | TypeError string
  | IOError
  | NotANumber

text \<open>
  What the program prints.  Lines built from numbers with well-formed format strings
  (\<open>%d\<close>, \<open>%f\<close>) are kept structured; \<open>Text\<close> is a literal or a formatted string.
\<close>

datatype line =
    Text string
  | TrainingOn nat nat \<comment> \<open>'... training on %d minibatches of size %d each'\<close>
  | EpochCost int real \<comment> \<open>'training epoch %d, cost %f ...'\<close>
  | RanFor \<comment> \<open>the running time, written to stderr\<close>

text \<open>
  Python's \<open>format % args\<close> on string arguments, for the conversions the program's
  literal messages contain: plain text, \<open>%%\<close>, \<open>%s\<close>, and a \<open>%\<close> that ends the format,
  which raises \<open>ValueError: incomplete format\<close>.
\<close>

fun py_format :: "string \<Rightarrow> string list \<Rightarrow> error + string" where
  "py_format [] args =
     (if args = [] then Inr []
      else Inl (TypeError ''not all arguments converted during string formatting''))"
| "py_format [c] args =
     (if c = CHR ''%'' then Inl (ValueError ''incomplete format'')
      else map_sum id ((#) c) (py_format [] args))"
| "py_format (c # d # cs) args =
     (if c \<noteq> CHR ''%'' then map_sum id ((#) c) (py_format (d # cs) args)
      else if d = CHR ''%'' then map_sum id ((#) CHR ''%'') (py_format cs args)
      else if d = CHR ''s'' then
        (case args of
           [] \<Rightarrow> Inl (TypeError ''not enough arguments for format string'')
         | a # as \<Rightarrow> map_sum id ((@) a) (py_format cs as))
      else Inl (ValueError ''unsupported format character''))"

section \<open>The training function\<close>

text \<open>
  The collaborators of \<open>train\<close> that live outside the source file: the data set
  (only the number of training rows matters to the control flow), the flat parameter
  array with the optimizer's auxiliary state (type \<open>'p\<close>), one update of each of the two
  optimizers at a given step rate, the monitoring cost of the full training set, and
  whether the pickled model can be loaded for plotting.
\<close>

record 'p env =
  train_set_rows :: nat
  build :: "nat \<Rightarrow> real \<Rightarrow> real \<Rightarrow> 'p"
  gd_step :: "real \<Rightarrow> 'p \<Rightarrow> 'p"
  rmsprop_step :: "real \<Rightarrow> 'p \<Rightarrow> 'p"
  env_loss :: "'p \<Rightarrow> real"
  pkl_load :: "error option"

text \<open>
  The state of the loop \<open>for info in opt\<close>: the optimizer's step counter \<open>n_iter\<close>, the
  parameters it updates in place, and the lines printed so far.
\<close>

record 'p loop_state =
  n_iter :: nat
  wrt :: 'p
  out :: "line list"

text \<open>
  One pass of the loop body (source lines 369 to 377).  The optimizer is an endless
  iterator: fetching \<open>info\<close> performs one update and increments \<open>n_iter\<close> before the
  body runs.  \<open>n_train_batches\<close> is \<open>None\<close> when the local variable was never assigned
  (the \<open>batch_size is None\<close> branch assigns \<open>batches_per_pass\<close> instead), and reading
  it raises \<open>UnboundLocalError\<close>; a zero divisor raises \<open>ZeroDivisionError\<close>.
  The loop is left by \<open>break\<close> only.
\<close>

function train_loop ::
  "('p \<Rightarrow> 'p) \<Rightarrow> ('p \<Rightarrow> real) \<Rightarrow> nat option \<Rightarrow> int \<Rightarrow> 'p loop_state
     \<Rightarrow> error option \<times> 'p loop_state"
where
  "train_loop step report n_train_batches training_epochs s =
     (let s1 = s\<lparr>n_iter := n_iter s + 1, wrt := step (wrt s)\<rparr>;
          iter = n_iter s1 - 1
      in case n_train_batches of
           None \<Rightarrow> (Some (UnboundLocalError ''n_train_batches''), s1)
         | Some N \<Rightarrow>
             if N = 0 then (Some ZeroDivisionError, s1)
             else
               let epoch = int (iter div N) + 1;
                   s2 = (if (iter + 1) mod N = 0
                         then s1\<lparr>out := out s1 @ [EpochCost epoch (report (wrt s1))]\<rparr>
                         else s1)
               in if epoch \<ge> training_epochs then (None, s2)
                  else train_loop step report n_train_batches training_epochs s2)"
  by pat_completeness auto
termination
proof (relation "measure (\<lambda>(step, report, n, E, s). nat (E * int (the n)) - n_iter s)")
  show "wf (measure (\<lambda>(step, report, n, E, s). nat (E * int (the n)) - n_iter s))"
    by simp
next
  fix step :: "'p \<Rightarrow> 'p" and report :: "'p \<Rightarrow> real" and n_train_batches :: "nat option"
    and training_epochs :: int and s :: "'p loop_state" and s1 iter N epoch s2
  assume s1: "s1 = s\<lparr>n_iter := n_iter s + 1, wrt := step (wrt s)\<rparr>"
    and iter: "iter = n_iter s1 - 1"
    and N: "n_train_batches = Some N" "N \<noteq> 0"
    and epoch: "epoch = int (iter div N) + 1"
    and s2: "s2 = (if (iter + 1) mod N = 0
                   then s1\<lparr>out := out s1 @ [EpochCost epoch (report (wrt s1))]\<rparr> else s1)"
    and go: "\<not> training_epochs \<le> epoch"
  let ?t = "n_iter s"
  have it: "iter = ?t" using s1 iter by simp
  have "?t < (?t div N + 1) * N"
    using N(2) by (metis Suc_eq_plus1 dividend_less_div_times mult.commute mult_Suc neq0_conv)
  moreover have "(int (?t div N) + 1) * int N \<le> training_epochs * int N"
    using go epoch it by (intro mult_right_mono) auto
  then have "int ((?t div N + 1) * N) \<le> training_epochs * int N"
    by (simp add: algebra_simps)
  ultimately have "?t < nat (training_epochs * int N)" by linarith
  moreover have "n_iter s2 = ?t + 1" using s1 s2 by simp
  ultimately show "((step, report, n_train_batches, training_epochs, s2),
                    (step, report, n_train_batches, training_epochs, s)) \<in>
      measure (\<lambda>(step, report, n, E, s). nat (E * int (the n)) - n_iter s)"
    using N(1) by simp
qed

declare train_loop.simps [simp del]

text \<open>
  What a call of \<open>train\<close> leaves behind: the value it returns (\<open>Inr\<close>) or the exception
  that ends it (\<open>Inl\<close>), the number of optimizer updates performed, the parameters,
  the printed lines, and whether the model was pickled.
\<close>

record 'p outcome =
  returned :: "error + int"
  steps :: nat
  final :: 'p
  printed :: "line list"
  pickled :: bool

text \<open>Source lines 364 to 389: the loop, the timing line, the pickle, \<open>return 1\<close>.\<close>

definition run_training ::
  "('p \<Rightarrow> 'p) \<Rightarrow> ('p \<Rightarrow> real) \<Rightarrow> nat option \<Rightarrow> int \<Rightarrow> 'p \<Rightarrow> line list \<Rightarrow> 'p outcome"
where
  "run_training step report n_train_batches training_epochs flat out1 =
     (case train_loop step report n_train_batches training_epochs
             \<lparr>n_iter = 0, wrt = flat, out = out1\<rparr> of
        (Some e, s) \<Rightarrow>
          \<lparr>returned = Inl e, steps = n_iter s, final = wrt s, printed = out s,
           pickled = False\<rparr>
      | (None, s) \<Rightarrow>
          \<lparr>returned = Inr 1, steps = n_iter s, final = wrt s, printed = out s @ [RanFor],
           pickled = True\<rparr>)"

text \<open>
  \<open>train\<close> (source lines 285 to 389).  The batch size is a count or \<open>None\<close>.  The
  minibatch set-up (lines 344 to 352) comes before the optimizer dispatch (lines 354 to
  362), so the division by the batch size is evaluated first.
\<close>

definition train ::
  "'p env \<Rightarrow> real \<Rightarrow> int \<Rightarrow> nat option \<Rightarrow> nat \<Rightarrow> string \<Rightarrow> real \<Rightarrow> real \<Rightarrow> 'p outcome"
where
  "train env learning_rate training_epochs batch_size n_hidden optimizer
         sparsity_lambda corruption_level =
     (let flat = build env n_hidden corruption_level sparsity_lambda;
          out0 = [Text ''... building the model''];
          stop = (\<lambda>r ls. \<lparr>returned = r, steps = 0, final = flat, printed = ls,
                           pickled = False\<rparr>);
          setup =
            (case batch_size of
               None \<Rightarrow> Inr (None, out0 @ [Text ''... training on the full train set''])
             | Some bs \<Rightarrow>
                 if bs = 0 then Inl ZeroDivisionError
                 else Inr (Some (train_set_rows env div bs),
                           out0 @ [TrainingOn (train_set_rows env div bs) bs]))
      in case setup of
           Inl e \<Rightarrow> stop (Inl e) out0
         | Inr (n_train_batches, out1) \<Rightarrow>
             if optimizer = ''gd'' then
               run_training (gd_step env learning_rate) (env_loss env) n_train_batches
                 training_epochs flat (out1 @ [Text ''... using gradient descent''])
             else if optimizer = ''rmsprop'' then
               run_training (rmsprop_step env learning_rate) (env_loss env) n_train_batches
                 training_epochs flat (out1 @ [Text ''... using rmsprop''])
             else stop (Inr (- 1)) (out1 @ [Text ''unknown optimizer'']))"

section \<open>The command surface\<close>

text \<open>
  \<open>plot\<close> (source lines 391 to 409) loads the pickled model first.  Its two drawing
  branches return nothing (\<open>None\<close>); the last branch formats its message with a format
  string that ends in a bare \<open>%\<close>.
\<close>

definition plot :: "'p env \<Rightarrow> string \<Rightarrow> (error + int option) \<times> line list" where
  "plot env element =
     (case pkl_load env of
        Some e \<Rightarrow> (Inl e, [])
      | None \<Rightarrow>
          if element = ''reconstructions'' then (Inr None, [Text ''... plot reconstructions''])
          else if element = ''repflds'' then (Inr None, [Text ''... plot receptive fields''])
          else
            (case py_format ''dot't know how to plot %'' [element] of
               Inl e \<Rightarrow> (Inl e, [])
             | Inr msg \<Rightarrow>
                 (Inr (Some (- 1)),
                  [Text msg, Text (''either use 'reconstructions' or 'repflds'' @ [CHR 0x27])])))"

text \<open>
  \<open>main\<close> (source lines 411 to 430), called with \<open>sys.argv[1:]\<close>; \<open>train()\<close> runs with
  the default arguments of its signature.
\<close>

definition main :: "'p env \<Rightarrow> string list \<Rightarrow> (error + int option) \<times> line list" where
  "main env argv =
     (if length argv < 1 then
        (Inr (Some (- 1)), [Text ''please call with at least 1 argument''])
      else
        let command = argv ! 0 in
        if command = ''train'' then
          (let r = train env 0.1 15 (Some 600) 800 ''rmsprop'' 0.08 0.3
           in (map_sum id Some (returned r), printed r))
        else if command = ''plot'' then
          (if length argv < 2 then
             (Inr (Some (- 1)), [Text ''please define what element to plot''])
           else plot env (argv ! 1))
        else
          (case py_format ''unknown command: %'' [command] of
             Inl e \<Rightarrow> (Inl e, [])
           | Inr msg \<Rightarrow>
               (Inr (Some (- 1)),
                [Text msg, Text (''either use 'train' or 'plot'' @ [CHR 0x27])])))"

text \<open>
  \<open>sys.exit(main(...))\<close> (source line 433): the exit status of the process.  \<open>None\<close>
  is status 0, an integer is reduced to one byte, and an exception that nobody catches
  ends the interpreter with status 1.
\<close>

definition sys_exit :: "error + int option \<Rightarrow> nat" where
  "sys_exit r =
     (case r of
        Inl e \<Rightarrow> 1
      | Inr None \<Rightarrow> 0
      | Inr (Some n) \<Rightarrow> nat (n mod 256))"

text \<open>
  A concrete environment for evaluating the control flow at explicit inputs: 50000
  training rows, and an optimizer state that merely counts the updates applied to it.
\<close>

definition counting_env :: "nat env" where
  "counting_env =
     \<lparr>train_set_rows = 50000, build = (\<lambda>nh cl sl. 0), gd_step = (\<lambda>rate p. Suc p),
      rmsprop_step = (\<lambda>rate p. Suc p), env_loss = (\<lambda>p. 0), pkl_load = None\<rparr>"

section \<open>Random sources\<close>

type_synonym vec = "real list"

text \<open>A matrix is the list of its rows; a batch has one example per row.\<close>

type_synonym matrix = "real list list"

text \<open>
  Modelled from the spec: the random generators (numpy's \<open>RandomState\<close> and Theano's
  \<open>RandomStreams\<close>) are libraries outside the source file.  A generator is the sequence
  of 53-bit integers it is going to produce and the position reached in it; a uniform
  double in the half-open unit interval is such an integer divided by \<open>2 ^ 53\<close>.  The
  state advances by one draw per entry produced.
\<close>

record rng =
  draws :: "nat \<Rightarrow> 53 word"
  pos :: nat

definition random_sample :: "rng \<Rightarrow> nat \<Rightarrow> real" where
  "random_sample g k = real (unat (draws g (pos g + k))) / 2 ^ 53"

definition advance :: "rng \<Rightarrow> nat \<Rightarrow> rng" where
  "advance g k = g\<lparr>pos := pos g + k\<rparr>"

text \<open>Modelled from the spec: \<open>randint(high)\<close>, an integer below \<open>high\<close> from one draw.\<close>

definition randint :: "rng \<Rightarrow> nat \<Rightarrow> nat \<times> rng" where
  "randint g high = (unat (draws g (pos g)) mod high, advance g 1)"

text \<open>
  Modelled from the spec: \<open>uniform(low, high, size)\<close> samples every entry independently
  and uniformly between \<open>low\<close> and \<open>high\<close>, in row-major order.
\<close>

definition uniform :: "rng \<Rightarrow> real \<Rightarrow> real \<Rightarrow> nat \<times> nat \<Rightarrow> matrix \<times> rng" where
  "uniform g low high sz =
     (case sz of (m, n) \<Rightarrow>
        (map (\<lambda>i. map (\<lambda>j. low + (high - low) * random_sample g (i * n + j)) [0..<n]) [0..<m],
         advance g (m * n)))"

text \<open>
  Modelled from the spec: \<open>binomial(size, n=1, p)\<close> draws, for every entry independently,
  a Bernoulli value that is 1 with probability \<open>p\<close> and 0 otherwise (1 kept, 0 dropped).
\<close>

definition binomial :: "rng \<Rightarrow> nat \<times> nat \<Rightarrow> real \<Rightarrow> matrix \<times> rng" where
  "binomial g sz p =
     (case sz of (m, n) \<Rightarrow>
        (map (\<lambda>i. map (\<lambda>j. if random_sample g (i * n + j) < p then 1 else 0) [0..<n]) [0..<m],
         advance g (m * n)))"

section \<open>Array operations\<close>

text \<open>
  The tensor operations the model is built from.  They are total on lists; the shapes
  on which the library accepts them are checked where the compiled cost is evaluated
  (\<open>shapes_ok\<close> below).  Operations that need the number of columns of an operand take
  it as their first argument, since a list of rows does not record it for a matrix
  without rows.
\<close>

definition shape :: "matrix \<Rightarrow> nat \<times> nat" where
  "shape A = (length A, case A of [] \<Rightarrow> 0 | r # _ \<Rightarrow> length r)"

definition is_matrix :: "nat \<Rightarrow> nat \<Rightarrow> matrix \<Rightarrow> bool" where
  "is_matrix m n A = (length A = m \<and> list_all (\<lambda>r. length r = n) A)"

definition col :: "matrix \<Rightarrow> nat \<Rightarrow> vec" where
  "col A j = map (\<lambda>r. r ! j) A"

text \<open>\<open>A.T\<close> for a matrix \<open>A\<close> of \<open>n\<close> columns.\<close>

definition transposed :: "nat \<Rightarrow> matrix \<Rightarrow> matrix" where
  "transposed n A = map (col A) [0..<n]"

definition inner :: "vec \<Rightarrow> vec \<Rightarrow> real" where
  "inner u v = sum_list (map2 (*) u v)"

text \<open>\<open>T.dot(A, B)\<close> for a matrix \<open>B\<close> of \<open>n\<close> columns.\<close>

definition dot :: "nat \<Rightarrow> matrix \<Rightarrow> matrix \<Rightarrow> matrix" where
  "dot n A B = map (\<lambda>r. map (\<lambda>j. inner r (col B j)) [0..<n]) A"

text \<open>Adding a vector to a matrix broadcasts it over the rows.\<close>

definition add_row :: "matrix \<Rightarrow> vec \<Rightarrow> matrix" where
  "add_row A v = map (\<lambda>r. map2 (+) r v) A"

definition mul :: "matrix \<Rightarrow> matrix \<Rightarrow> matrix" where
  "mul A B = map2 (map2 (*)) A B"

definition sigmoid :: "real \<Rightarrow> real" where
  "sigmoid t = 1 / (1 + exp (- t))"

definition mean :: "vec \<Rightarrow> real" where
  "mean v = sum_list v / real (length v)"

text \<open>\<open>A.mean(axis = 0)\<close> for a matrix \<open>A\<close> of \<open>n\<close> columns: the mean of every column.\<close>

definition mean_axis0 :: "nat \<Rightarrow> matrix \<Rightarrow> vec" where
  "mean_axis0 n A = map (\<lambda>j. mean (col A j)) [0..<n]"

section \<open>The denoising auto-encoder\<close>

text \<open>
  The object that \<open>dA.__init__\<close> builds.  The shared variables \<open>W\<close>, \<open>b\<close> and \<open>b_prime\<close>
  hold values; the corruption level and the sparsity weight are constants of the
  expression graph; \<open>theano_rng\<close> is the state of the random streams.  Floating-point
  numbers are modelled as real numbers.  There is no field for \<open>W_prime\<close>: the source
  binds it to the symbolic expression \<open>self.W.T\<close>, a function of the value of \<open>W\<close>.
\<close>

record dA =
  n_visible :: nat
  n_hidden :: nat
  W :: matrix
  b :: vec
  b_prime :: vec
  theano_rng :: rng
  corruption_level :: real
  sparsity_lambda :: real

definition W_prime :: "dA \<Rightarrow> matrix" where
  "W_prime da = transposed (n_hidden da) (W da)"

text \<open>\<open>self.params\<close>: the tensors the model owns.\<close>

datatype param = Matrix matrix | Vector vec

definition params :: "dA \<Rightarrow> param list" where
  "params da = [Matrix (W da), Vector (b da), Vector (b_prime da)]"

text \<open>
  \<open>dA.__init__\<close> up to the assignment of the parameters (source lines 147 to 206).  An
  argument that the caller leaves out is \<open>None\<close>.  The first argument is the seeding
  function of the random streams, used when no \<open>theano_rng\<close> is passed.  The division
  \<open>6. / (n_hidden + n_visible)\<close> raises when both dimensions are 0.  The result is
  the object and the state in which \<open>numpy_rng\<close> is left.  The argument
  \<open>learning_rate\<close> of the source is never read and is left out.
\<close>

definition dA_init ::
  "(nat \<Rightarrow> rng) \<Rightarrow> rng \<Rightarrow> rng option \<Rightarrow> nat \<Rightarrow> nat \<Rightarrow> matrix option \<Rightarrow> vec option \<Rightarrow>
     vec option \<Rightarrow> real \<Rightarrow> real \<Rightarrow> error + dA \<times> rng"
where
  "dA_init RandomStreams numpy_rng theano_rng_arg nv nh W_arg bhid bvis level lam =
     (let (trng, g1) =
            (case theano_rng_arg of
               None \<Rightarrow> (let (seed, g) = randint numpy_rng (2 ^ 30) in (RandomStreams seed, g))
             | Some t \<Rightarrow> (t, numpy_rng));
          made =
            (case W_arg of
               None \<Rightarrow>
                 if nh + nv = 0 then Inl ZeroDivisionError
                 else Inr (uniform g1 (- 4 * sqrt (6 / real (nh + nv)))
                             (4 * sqrt (6 / real (nh + nv))) (nv, nh))
             | Some Wv \<Rightarrow> Inr (Wv, g1))
      in case made of
           Inl e \<Rightarrow> Inl e
         | Inr (Wv, g2) \<Rightarrow>
             Inr (\<lparr>n_visible = nv, n_hidden = nh, W = Wv,
                   b = (case bhid of None \<Rightarrow> replicate nh 0 | Some v \<Rightarrow> v),
                   b_prime = (case bvis of None \<Rightarrow> replicate nv 0 | Some v \<Rightarrow> v),
                   theano_rng = trng, corruption_level = level, sparsity_lambda = lam\<rparr>,
                  g2))"

text \<open>
  \<open>get_corrupted_input\<close> (source line 241): a mask of the shape of the input, drawn with
  probability \<open>1 - corruption_level\<close> of a 1, times the input; with the state in which
  the random streams are left.
\<close>

definition get_corrupted_input :: "dA \<Rightarrow> matrix \<Rightarrow> real \<Rightarrow> matrix \<times> rng" where
  "get_corrupted_input da input level =
     (let (mask, g) = binomial (theano_rng da) (shape input) (1 - level)
      in (mul mask input, g))"

definition get_hidden_values :: "dA \<Rightarrow> matrix \<Rightarrow> matrix" where
  "get_hidden_values da input =
     map (map sigmoid) (add_row (dot (n_hidden da) input (W da)) (b da))"

definition get_reconstructed_input :: "dA \<Rightarrow> matrix \<Rightarrow> matrix" where
  "get_reconstructed_input da hidden =
     map (map sigmoid) (add_row (dot (n_visible da) hidden (W_prime da)) (b_prime da))"

text \<open>
  The nodes of the expression graph (source lines 208 to 213), as functions of the
  object and of the input batch \<open>x\<close>.  One evaluation draws one mask, shared by the
  reconstruction loss and by the penalty.
\<close>

definition tilde_x :: "dA \<Rightarrow> matrix \<Rightarrow> matrix" where
  "tilde_x da x = fst (get_corrupted_input da x (corruption_level da))"

definition y :: "dA \<Rightarrow> matrix \<Rightarrow> matrix" where
  "y da x = get_hidden_values da (tilde_x da x)"

definition z :: "dA \<Rightarrow> matrix \<Rightarrow> matrix" where
  "z da x = get_reconstructed_input da (y da x)"

definition L :: "dA \<Rightarrow> matrix \<Rightarrow> vec" where
  "L da x =
     map2 (\<lambda>xr zr. - sum_list (map2 (\<lambda>xk zk. xk * ln zk + (1 - xk) * ln (1 - zk)) xr zr))
       x (z da x)"

definition L1_hidden_penalty :: "dA \<Rightarrow> matrix \<Rightarrow> real" where
  "L1_hidden_penalty da x = sparsity_lambda da * sum_list (mean_axis0 (n_hidden da) (y da x))"

definition cost :: "dA \<Rightarrow> matrix \<Rightarrow> real" where
  "cost da x = mean (L da x) + L1_hidden_penalty da x"

text \<open>
  The shapes on which the graph evaluates: the batch has \<open>n_visible\<close> columns and the
  parameters have the shapes of the model's dimensions.
\<close>

definition shapes_ok :: "dA \<Rightarrow> matrix \<Rightarrow> bool" where
  "shapes_ok da x =
     (is_matrix (length x) (n_visible da) x \<and>
      is_matrix (n_visible da) (n_hidden da) (W da) \<and>
      length (b da) = n_hidden da \<and>
      length (b_prime da) = n_visible da)"

text \<open>
  \<open>loss = theano.function([x], da.cost)\<close> (source line 337): one evaluation of the cost,
  which also advances the random streams.  Mismatched shapes raise; an empty batch
  makes both means 0/0.
\<close>

definition loss :: "dA \<Rightarrow> matrix \<Rightarrow> error + real \<times> dA" where
  "loss da x =
     (if \<not> shapes_ok da x then Inl (ValueError ''shape mismatch'')
      else if x = [] then Inl NotANumber
      else Inr (cost da x,
                da\<lparr>theano_rng := snd (get_corrupted_input da x (corruption_level da))\<rparr>))"

section \<open>The cost in the words of the specification\<close>

text \<open>
  The specification states the cost entry by entry.  \<open>spec_mask\<close> is the Bernoulli mask
  value of entry \<open>(i, k)\<close>, \<open>spec_corrupted\<close> the corrupted input, \<open>spec_y\<close> the hidden
  activation \<open>sigmoid(x~ W + b)\<close>, \<open>spec_z\<close> the reconstruction \<open>sigmoid(y W' + b')\<close>
  with \<open>W'\<close> the transpose of \<open>W\<close>, \<open>spec_L\<close> the cross-entropy of example \<open>i\<close> against
  the uncorrupted input, and \<open>spec_cost\<close> the mean loss plus the sparsity penalty.
\<close>

definition spec_mask :: "dA \<Rightarrow> nat \<Rightarrow> nat \<Rightarrow> real" where
  "spec_mask da i k =
     (if random_sample (theano_rng da) (i * n_visible da + k) < 1 - corruption_level da
      then 1 else 0)"

definition spec_corrupted :: "dA \<Rightarrow> matrix \<Rightarrow> nat \<Rightarrow> nat \<Rightarrow> real" where
  "spec_corrupted da x i k = spec_mask da i k * x ! i ! k"

definition spec_y :: "dA \<Rightarrow> matrix \<Rightarrow> nat \<Rightarrow> nat \<Rightarrow> real" where
  "spec_y da x i h =
     sigmoid ((\<Sum>k<n_visible da. spec_corrupted da x i k * W da ! k ! h) + b da ! h)"

definition spec_z :: "dA \<Rightarrow> matrix \<Rightarrow> nat \<Rightarrow> nat \<Rightarrow> real" where
  "spec_z da x i k =
     sigmoid ((\<Sum>h<n_hidden da. spec_y da x i h * W da ! k ! h) + b_prime da ! k)"

definition spec_L :: "dA \<Rightarrow> matrix \<Rightarrow> nat \<Rightarrow> real" where
  "spec_L da x i =
     - (\<Sum>k<n_visible da.
          x ! i ! k * ln (spec_z da x i k) + (1 - x ! i ! k) * ln (1 - spec_z da x i k))"

definition spec_cost :: "dA \<Rightarrow> matrix \<Rightarrow> real" where
  "spec_cost da x =
     (\<Sum>i<length x. spec_L da x i) / real (length x) +
     sparsity_lambda da * (\<Sum>h<n_hidden da. (\<Sum>i<length x. spec_y da x i h) / real (length x))"

text \<open>A small concrete model and batch for evaluating the definitions.\<close>

definition zero_rng :: rng where
  "zero_rng = \<lparr>draws = (\<lambda>k. 0), pos = 0\<rparr>"

definition small_dA :: dA where
  "small_dA =
     \<lparr>n_visible = 2, n_hidden = 1, W = [[1], [- 1]], b = [0], b_prime = [0, 0],
      theano_rng = zero_rng, corruption_level = 0, sparsity_lambda = 1\<rparr>"

section \<open>Halting of the training loop\<close>

text \<open>The first read of the unassigned \<open>n_train_batches\<close> ends the loop after one update.\<close>

lemma train_loop_unbound:
  "train_loop step report None E s =
     (Some (UnboundLocalError ''n_train_batches''),
      s\<lparr>n_iter := n_iter s + 1, wrt := step (wrt s)\<rparr>)"
  by (subst train_loop.simps) (simp add: Let_def)

lemma train_loop_zero:
  "train_loop step report (Some 0) E s =
     (Some ZeroDivisionError, s\<lparr>n_iter := n_iter s + 1, wrt := step (wrt s)\<rparr>)"
  by (subst train_loop.simps) (simp add: Let_def)

text \<open>
  With at least one minibatch per pass the loop always reaches its \<open>break\<close>: it stops at
  the first step whose epoch number reaches \<open>training_epochs\<close>, and that is step
  \<open>(training_epochs - 1) * n_train_batches + 1\<close> (or the very next step, when the counter
  is already beyond it).
\<close>

lemma epoch_reached:
  assumes "0 < N" and "E \<le> int (t div N) + 1"
  shows "nat ((E - 1) * int N) \<le> t"
proof -
  have "(E - 1) * int N \<le> int (t div N) * int N"
    using assms by (intro mult_right_mono) auto
  also have "\<dots> = int (t div N * N)" by simp
  also have "\<dots> \<le> int t" by (simp del: of_nat_mult)
  finally show ?thesis by linarith
qed

lemma epoch_pending:
  assumes "0 < N" and "\<not> E \<le> int (t div N) + 1"
  shows "t < nat ((E - 1) * int N)"
proof -
  have "t < (t div N + 1) * N"
    using assms(1) by (metis Suc_eq_plus1 dividend_less_div_times mult.commute mult_Suc)
  moreover have "(int (t div N) + 1) * int N \<le> (E - 1) * int N"
    using assms by (intro mult_right_mono) auto
  then have "int ((t div N + 1) * N) \<le> (E - 1) * int N"
    by (simp add: algebra_simps)
  ultimately show ?thesis by linarith
qed

lemma train_loop_halts:
  assumes "0 < N"
  shows "fst (train_loop step report (Some N) E s) = None \<and>
   n_iter (snd (train_loop step report (Some N) E s)) =
     max (n_iter s + 1) (nat ((E - 1) * int N) + 1) \<and>
   wrt (snd (train_loop step report (Some N) E s)) =
     (step ^^ (max (n_iter s + 1) (nat ((E - 1) * int N) + 1) - n_iter s)) (wrt s)"
proof (induction "nat ((E - 1) * int N) - n_iter s" arbitrary: s rule: less_induct)
  case less
  let ?t = "n_iter s"
  let ?M = "nat ((E - 1) * int N)"
  let ?s1 = "s\<lparr>n_iter := n_iter s + 1, wrt := step (wrt s)\<rparr>"
  let ?s2 = "if (?t + 1) mod N = 0
             then ?s1\<lparr>out := out ?s1 @ [EpochCost (int (?t div N) + 1) (report (wrt ?s1))]\<rparr>
             else ?s1"
  show ?case
  proof (cases "E \<le> int (?t div N) + 1")
    case True
    have "?M \<le> ?t" using epoch_reached[OF assms True] .
    then have m: "max (?t + 1) (?M + 1) = ?t + 1" by simp
    have "train_loop step report (Some N) E s = (None, ?s2)"
      using True assms by (subst train_loop.simps) (simp add: Let_def)
    then show ?thesis unfolding m by simp
  next
    case False
    have lt: "?t < ?M" using epoch_pending[OF assms False] .
    then have m: "max (?t + 1) (?M + 1) = ?M + 1"
      and m2: "max (?t + 1 + 1) (?M + 1) = ?M + 1"
      by simp_all
    have eq: "train_loop step report (Some N) E s = train_loop step report (Some N) E ?s2"
      using False assms by (subst train_loop.simps) (simp add: Let_def)
    have n2: "n_iter ?s2 = ?t + 1" and w2: "wrt ?s2 = step (wrt s)" by simp_all
    have "?M - n_iter ?s2 < ?M - ?t" unfolding n2 using lt by simp
    from less[OF this]
    have IH: "fst (train_loop step report (Some N) E ?s2) = None \<and>
      n_iter (snd (train_loop step report (Some N) E ?s2)) = ?M + 1 \<and>
      wrt (snd (train_loop step report (Some N) E ?s2)) =
        (step ^^ (?M + 1 - (?t + 1))) (step (wrt s))"
      unfolding n2 w2 m2 .
    have "?M + 1 - ?t = Suc (?M + 1 - (?t + 1))"
      using lt by simp
    then have "(step ^^ (?M + 1 - ?t)) (wrt s) = (step ^^ (?M + 1 - (?t + 1))) (step (wrt s))"
      by (simp add: funpow_swap1)
    then show ?thesis
      unfolding eq m using IH by simp
  qed
qed


lemma run_training_completes:
  assumes "0 < N"
  shows "returned (run_training step report (Some N) E flat ls) = Inr 1"
    and "steps (run_training step report (Some N) E flat ls) = max 1 (nat ((E - 1) * int N) + 1)"
    and "pickled (run_training step report (Some N) E flat ls)"
proof -
  let ?r = "train_loop step report (Some N) E \<lparr>n_iter = 0, wrt = flat, out = ls\<rparr>"
  have h: "fst ?r = None" "n_iter (snd ?r) = max 1 (nat ((E - 1) * int N) + 1)"
    using train_loop_halts[OF assms, of step report E "\<lparr>n_iter = 0, wrt = flat, out = ls\<rparr>"]
    by simp_all
  obtain e s where r: "?r = (e, s)" by (cases ?r)
  with h have "e = None" "n_iter s = max 1 (nat ((E - 1) * int N) + 1)" by simp_all
  with r show "returned (run_training step report (Some N) E flat ls) = Inr 1"
    and "steps (run_training step report (Some N) E flat ls) = max 1 (nat ((E - 1) * int N) + 1)"
    and "pickled (run_training step report (Some N) E flat ls)"
    by (simp_all add: run_training_def)
qed

lemma run_training_unbound:
  "run_training step report None E flat ls =
     \<lparr>returned = Inl (UnboundLocalError ''n_train_batches''), steps = 1, final = step flat,
      printed = ls, pickled = False\<rparr>"
  by (simp add: run_training_def train_loop_unbound)

text \<open>
  Claim C2 (the minibatch loop performs \<open>training_epochs\<close> complete epochs of
  \<open>floor(train_set_size / batch_size)\<close> steps before it halts).  With 50000 rows, a
  batch size of 25000 (two minibatches per epoch) and two epochs requested, the code
  performs three updates, not four: the epoch number of a step is
  \<open>iter // n_train_batches + 1\<close>, which reaches \<open>training_epochs\<close> at the first step of
  the last epoch, and the loop breaks there.  Only epoch 1 is ever reported.  With the
  default arguments (15 epochs of 83 minibatches) it performs 1163 updates, not 1245.
\<close>

theorem train_stops_one_epoch_short:
  "train counting_env 0.1 2 (Some 25000) 800 ''gd'' 0.08 0.3 =
     \<lparr>returned = Inr 1, steps = 3, final = 3,
      printed = [Text ''... building the model'', TrainingOn 2 25000,
                 Text ''... using gradient descent'', EpochCost 1 0, RanFor],
      pickled = True\<rparr> \<and>
   steps (train counting_env 0.1 15 (Some 600) 800 ''rmsprop'' 0.08 0.3) = 1163 \<and>
   15 * (train_set_rows counting_env div 600) = 1245"
proof -
  have "0 < train_set_rows counting_env div 600"
    by (simp add: counting_env_def)
  then have "steps (train counting_env 0.1 15 (Some 600) 800 ''rmsprop'' 0.08 0.3) =
      max 1 (nat ((15 - 1) * int (train_set_rows counting_env div 600)) + 1)"
    by (simp add: train_def Let_def run_training_completes(2))
  then have long: "steps (train counting_env 0.1 15 (Some 600) 800 ''rmsprop'' 0.08 0.3) = 1163"
    by (simp add: counting_env_def)
  have short: "train counting_env 0.1 2 (Some 25000) 800 ''gd'' 0.08 0.3 =
     \<lparr>returned = Inr 1, steps = 3, final = 3,
      printed = [Text ''... building the model'', TrainingOn 2 25000,
                 Text ''... using gradient descent'', EpochCost 1 0, RanFor],
      pickled = True\<rparr>"
    by (simp add: train_def run_training_def counting_env_def Let_def train_loop.simps)
  have rows: "15 * (train_set_rows counting_env div 600) = 1245"
    by (simp add: counting_env_def)
  from short long rows show ?thesis by (intro conjI)
qed

text \<open>
  Claim C3 (with the batch size unset the loop repeats the whole training split as one
  batch and runs to normal completion).  For both optimizers, whatever the epoch target
  and the data, the call performs one update and then ends with \<open>UnboundLocalError\<close>:
  the branch for \<open>batch_size is None\<close> never assigns \<open>n_train_batches\<close>, which the loop
  body reads.  Nothing is pickled and no value is returned.
\<close>

theorem train_full_batch_raises:
  "train env rate E None nh ''gd'' sl cl =
     \<lparr>returned = Inl (UnboundLocalError ''n_train_batches''), steps = 1,
      final = gd_step env rate (build env nh cl sl),
      printed = [Text ''... building the model'', Text ''... training on the full train set'',
                 Text ''... using gradient descent''],
      pickled = False\<rparr> \<and>
   train env rate E None nh ''rmsprop'' sl cl =
     \<lparr>returned = Inl (UnboundLocalError ''n_train_batches''), steps = 1,
      final = rmsprop_step env rate (build env nh cl sl),
      printed = [Text ''... building the model'', Text ''... training on the full train set'',
                 Text ''... using rmsprop''],
      pickled = False\<rparr>"
  by (simp add: train_def run_training_unbound Let_def)

text \<open>
  Claim C4: for every optimizer name other than "gd" and "rmsprop", in an otherwise
  valid configuration (the batch size unset or positive), \<open>train\<close> rejects the
  configuration before any optimizer step: it prints "unknown optimizer" last, returns
  -1 (not the 1 of a completed run), performs no training step, leaves the parameters
  as built and pickles nothing.
\<close>

theorem train_unknown_optimizer:
  assumes "opt \<noteq> ''gd''" and "opt \<noteq> ''rmsprop''" and "bs \<noteq> Some 0"
  shows "returned (train env rate E bs nh opt sl cl) = Inr (- 1) \<and>
         last (printed (train env rate E bs nh opt sl cl)) = Text ''unknown optimizer'' \<and>
         steps (train env rate E bs nh opt sl cl) = 0 \<and>
         final (train env rate E bs nh opt sl cl) = build env nh cl sl \<and>
         \<not> pickled (train env rate E bs nh opt sl cl)"
  using assms by (cases bs) (simp_all add: train_def Let_def)

theorem train_unknown_optimizer_witness:
  "''adam'' \<noteq> ''gd'' \<and> ''adam'' \<noteq> ''rmsprop'' \<and> Some (600::nat) \<noteq> Some 0 \<and>
   returned (train counting_env 0.1 15 (Some 600) 800 ''adam'' 0.08 0.3) = Inr (- 1) \<and>
   last (printed (train counting_env 0.1 15 (Some 600) 800 ''adam'' 0.08 0.3)) =
     Text ''unknown optimizer'' \<and>
   steps (train counting_env 0.1 15 (Some 600) 800 ''adam'' 0.08 0.3) = 0"
proof -
  have a: "''adam'' \<noteq> ''gd''" and r: "''adam'' \<noteq> ''rmsprop''"
    and n: "Some (600::nat) \<noteq> Some 0" by simp_all
  from train_unknown_optimizer[OF a r n, of counting_env "0.1" 15 800 "0.08" "0.3"] a r n
  show ?thesis by blast
qed

section \<open>Exit statuses of the command surface\<close>

text \<open>
  Claim C9 (an unrecognized subcommand or a missing argument prints a usage message and
  ends with a non-zero exit status).  For the unrecognized subcommand \<open>foo\<close> the format
  string \<open>'unknown command: %'\<close> ends in a bare \<open>%\<close>, so formatting raises \<open>ValueError\<close>
  before anything is printed: neither the message nor the usage line appears, and the
  status 1 is that of the uncaught exception.
\<close>

theorem main_unknown_command_raises:
  "main counting_env [''foo''] = (Inl (ValueError ''incomplete format''), []) \<and>
   sys_exit (fst (main counting_env [''foo''])) = 1"
  by (simp add: main_def sys_exit_def)

text \<open>The same holds for every unrecognized subcommand; the two missing-argument paths
  print their message and return -1, which is exit status 255.\<close>

lemma main_unknown_command:
  "cmd \<noteq> ''train'' \<Longrightarrow> cmd \<noteq> ''plot'' \<Longrightarrow>
   main env (cmd # rest) = (Inl (ValueError ''incomplete format''), [])"
  by (simp add: main_def)

lemma main_missing_argument:
  "main env [] = (Inr (Some (- 1)), [Text ''please call with at least 1 argument''])"
  "main env [''plot''] = (Inr (Some (- 1)), [Text ''please define what element to plot''])"
  "sys_exit (Inr (Some (- 1))) = 255"
  by (simp_all add: main_def sys_exit_def)

text \<open>
  Claim C10 (a successful \<open>train\<close> returns 1, which \<open>main\<close> hands to \<open>sys.exit\<close>, so the
  \<open>train\<close> subcommand ends with a non-zero exit status even on success).  Whenever
  \<open>train\<close> gets as far as pickling the model it returns 1; and with at least 600
  training rows (one full minibatch of the default size) the \<open>train\<close> subcommand
  completes and the process exits with status 1.
\<close>

theorem train_success_exits_nonzero:
  "(pickled (train env rate E bs nh opt sl cl) \<longrightarrow>
      returned (train env rate E bs nh opt sl cl) = Inr 1) \<and>
   (600 \<le> train_set_rows env \<longrightarrow>
      fst (main env [''train'']) = Inr (Some 1) \<and>
      sys_exit (fst (main env [''train''])) = 1 \<and>
      sys_exit (fst (main env [''train''])) \<noteq> 0)"
proof (intro conjI impI)
  assume p: "pickled (train env rate E bs nh opt sl cl)"
  show "returned (train env rate E bs nh opt sl cl) = Inr 1"
  proof (cases bs)
    case None
    with p show ?thesis
      by (simp add: train_def Let_def run_training_unbound split: if_splits)
  next
    case (Some n)
    with p show ?thesis
      by (auto simp: train_def Let_def run_training_def split: if_splits prod.splits option.splits)
  qed
next
  assume "600 \<le> train_set_rows env"
  then have N: "0 < train_set_rows env div 600"
    by (simp add: div_greater_zero_iff)
  have r: "returned (train env 0.1 15 (Some 600) 800 ''rmsprop'' 0.08 0.3) = Inr 1"
    by (simp add: train_def Let_def run_training_completes(1)[OF N])
  then show "fst (main env [''train'']) = Inr (Some 1)"
    by (simp add: main_def Let_def)
  then show "sys_exit (fst (main env [''train''])) = 1"
    and "sys_exit (fst (main env [''train''])) \<noteq> 0"
    by (simp_all add: sys_exit_def)
qed

theorem train_success_exits_nonzero_witness:
  "pickled (train counting_env 0.1 1 (Some 600) 800 ''gd'' 0.08 0.3) \<and>
   returned (train counting_env 0.1 1 (Some 600) 800 ''gd'' 0.08 0.3) = Inr 1 \<and>
   600 \<le> train_set_rows counting_env \<and>
   sys_exit (fst (main counting_env [''train''])) = 1"
proof -
  have p: "pickled (train counting_env 0.1 1 (Some 600) 800 ''gd'' 0.08 0.3)"
    by (simp add: train_def run_training_def counting_env_def Let_def train_loop.simps)
  have q: "600 \<le> train_set_rows counting_env"
    by (simp add: counting_env_def)
  show ?thesis
    using train_success_exits_nonzero[of counting_env "0.1" 1 "Some 600" 800 "''gd''" "0.08" "0.3"] p q
    by (simp add: sys_exit_def)
qed

section \<open>Random draws and array operations\<close>

text \<open>A uniform draw lies in the half-open unit interval, whatever the generator's state.\<close>

lemma random_sample_range: "0 \<le> random_sample g k" "random_sample g k < 1"
proof -
  show "0 \<le> random_sample g k"
    by (simp add: random_sample_def del: of_nat_unat)
  have "unat (draws g (pos g + k)) < 2 ^ LENGTH(53)"
    by (rule unsigned_less)
  then have "unat (draws g (pos g + k)) < 2 ^ 53" by simp
  then have "real (unat (draws g (pos g + k))) < real (2 ^ 53)"
    by (rule iffD2[OF of_nat_less_iff])
  then show "random_sample g k < 1"
    by (simp add: random_sample_def del: of_nat_unat)
qed


lemma shape_matrix: "is_matrix m n A \<Longrightarrow> A \<noteq> [] \<Longrightarrow> shape A = (m, n)"
  by (cases A) (simp_all add: is_matrix_def shape_def)

lemma is_matrix_row: "is_matrix m n A \<Longrightarrow> i < m \<Longrightarrow> length (A ! i) = n"
  by (simp add: is_matrix_def list_all_length)

lemma map2_one: "length r = n \<Longrightarrow> map2 (*) (map (\<lambda>j. 1::real) [0..<n]) r = r"
  by (rule nth_equalityI) simp_all

lemma binomial_sure:
  "binomial g (m, n) 1 = (map (\<lambda>i. map (\<lambda>j. 1) [0..<n]) [0..<m], advance g (m * n))"
  by (simp add: binomial_def random_sample_range)

lemma corrupt0:
  assumes "is_matrix m n x"
  shows "fst (get_corrupted_input da x 0) = x"
proof (cases "x = []")
  case True
  then show ?thesis
    by (simp add: get_corrupted_input_def shape_def binomial_def mul_def)
next
  case False
  have len: "length x = m" using assms by (simp add: is_matrix_def)
  have "mul (map (\<lambda>i. map (\<lambda>j. 1) [0..<n]) [0..<m]) x = x"
    unfolding mul_def
    by (rule nth_equalityI) (simp_all add: len map2_one is_matrix_row[OF assms])
  then show ?thesis
    by (simp add: get_corrupted_input_def shape_matrix[OF assms False] binomial_sure)
qed

lemma transposed_nth:
  "h < n \<Longrightarrow> k < length A \<Longrightarrow> transposed n A ! h ! k = A ! k ! h"
  by (simp add: transposed_def col_def)

lemma uniform_entries:
  assumes "low \<le> high" and "uniform g low high (m, n) = (A, g')"
  shows "is_matrix m n A" and "\<forall>r\<in>set A. \<forall>w\<in>set r. low \<le> w \<and> w \<le> high"
proof -
  have A: "A = map (\<lambda>i. map (\<lambda>j. low + (high - low) * random_sample g (i * n + j)) [0..<n]) [0..<m]"
    using assms(2) by (simp add: uniform_def)
  show "is_matrix m n A" by (simp add: A is_matrix_def list_all_iff)
  have "low \<le> low + (high - low) * u \<and> low + (high - low) * u \<le> high"
    if "0 \<le> u" "u < 1" for u :: real
  proof
    show "low \<le> low + (high - low) * u" using assms(1) that by simp
    have "(high - low) * u \<le> (high - low) * 1"
      using assms(1) that by (intro mult_left_mono) auto
    then show "low + (high - low) * u \<le> high" by simp
  qed
  then show "\<forall>r\<in>set A. \<forall>w\<in>set r. low \<le> w \<and> w \<le> high"
    by (auto simp: A random_sample_range)
qed


section \<open>The cost, entry by entry\<close>

text \<open>
  Sums over lists as sums over indices, and the entries of the array operations on
  operands of matching shapes.
\<close>

lemma sum_list_map2_nth:
  assumes "length xs = n" and "length ys = n"
  shows "sum_list (map2 f xs ys) = (\<Sum>i<n. f (xs ! i) (ys ! i))"
proof -
  have "map2 f xs ys = map (\<lambda>i. f (xs ! i) (ys ! i)) [0..<n]"
    using assms by (intro nth_equalityI) simp_all
  then show ?thesis
    by (simp add: interv_sum_list_conv_sum_set_nat atLeast_upt)
qed

lemma sum_list_upt: "sum_list (map f [0..<n]) = (\<Sum>i<n. f i)"
  by (simp add: interv_sum_list_conv_sum_set_nat atLeast_upt)

lemma sum_list_col:
  "sum_list (col A j) = (\<Sum>i<length A. A ! i ! j)"
proof -
  have "col A j = map (\<lambda>i. A ! i ! j) [0..<length A]"
    unfolding col_def by (intro nth_equalityI) simp_all
  then show ?thesis by (simp add: sum_list_upt)
qed

lemma dot_nth:
  assumes "i < length A" and "j < n" and "length (A ! i) = p" and "length B = p"
  shows "dot n A B ! i ! j = (\<Sum>k<p. A ! i ! k * B ! k ! j)"
proof -
  have "dot n A B ! i ! j = inner (A ! i) (col B j)"
    using assms(1,2) by (simp add: dot_def)
  also have "\<dots> = (\<Sum>k<p. A ! i ! k * col B j ! k)"
    unfolding inner_def using assms(3,4) by (intro sum_list_map2_nth) (simp_all add: col_def)
  also have "\<dots> = (\<Sum>k<p. A ! i ! k * B ! k ! j)"
    using assms(4) by (intro sum.cong) (simp_all add: col_def)
  finally show ?thesis .
qed

lemma dot_shape:
  "length (dot n A B) = length A" "i < length A \<Longrightarrow> length (dot n A B ! i) = n"
  by (simp_all add: dot_def)

lemma affine_sigmoid_nth:
  assumes "i < length M" and "j < length (M ! i)" and "j < length v"
  shows "map (map sigmoid) (add_row M v) ! i ! j = sigmoid (M ! i ! j + v ! j)"
  using assms by (simp add: add_row_def)

lemma affine_sigmoid_shape:
  "length (map (map sigmoid) (add_row M v)) = length M"
  "i < length M \<Longrightarrow> length (map (map sigmoid) (add_row M v) ! i) = min (length (M ! i)) (length v)"
  by (simp_all add: add_row_def)

text \<open>
  The nodes of the graph agree, entry by entry, with the quantities of the
  specification.
\<close>

lemma tilde_x_shape:
  assumes "is_matrix (length x) (n_visible da) x"
  shows "length (tilde_x da x) = length x"
    and "i < length x \<Longrightarrow> length (tilde_x da x ! i) = n_visible da"
    and "i < length x \<Longrightarrow> k < n_visible da \<Longrightarrow> tilde_x da x ! i ! k = spec_corrupted da x i k"
proof -
  show "length (tilde_x da x) = length x"
    by (cases "x = []")
       (simp_all add: tilde_x_def get_corrupted_input_def shape_def binomial_def mul_def
          split: list.splits)
  assume i: "i < length x"
  then have ne: "x \<noteq> []" by auto
  have sh: "shape x = (length x, n_visible da)" using shape_matrix[OF assms ne] .
  have row: "length (x ! i) = n_visible da" using is_matrix_row[OF assms i] .
  show "length (tilde_x da x ! i) = n_visible da"
    using i row by (simp add: tilde_x_def get_corrupted_input_def sh binomial_def mul_def)
  assume "k < n_visible da"
  then show "tilde_x da x ! i ! k = spec_corrupted da x i k"
    using i row
    by (simp add: tilde_x_def get_corrupted_input_def sh binomial_def mul_def
        spec_corrupted_def spec_mask_def)
qed


lemma y_shape:
  assumes "shapes_ok da x"
  shows "length (y da x) = length x"
    and "i < length x \<Longrightarrow> length (y da x ! i) = n_hidden da"
    and "i < length x \<Longrightarrow> h < n_hidden da \<Longrightarrow> y da x ! i ! h = spec_y da x i h"
proof -
  have mx: "is_matrix (length x) (n_visible da) x"
    and lW: "length (W da) = n_visible da"
    and lb: "length (b da) = n_hidden da"
    using assms by (simp_all add: shapes_ok_def is_matrix_def)
  note tx = tilde_x_shape[OF mx]
  show "length (y da x) = length x"
    by (simp add: y_def get_hidden_values_def add_row_def dot_shape tx(1))
  assume i: "i < length x"
  then show "length (y da x ! i) = n_hidden da"
    by (simp add: y_def get_hidden_values_def add_row_def dot_shape tx(1) lb)
  assume h: "h < n_hidden da"
  have "y da x ! i ! h
      = sigmoid (dot (n_hidden da) (tilde_x da x) (W da) ! i ! h + b da ! h)"
    unfolding y_def get_hidden_values_def
    using i h by (intro affine_sigmoid_nth) (simp_all add: dot_shape tx(1) lb)
  also have "dot (n_hidden da) (tilde_x da x) (W da) ! i ! h
      = (\<Sum>k<n_visible da. tilde_x da x ! i ! k * W da ! k ! h)"
    using i h by (intro dot_nth) (simp_all add: tx lW)
  also have "\<dots> = (\<Sum>k<n_visible da. spec_corrupted da x i k * W da ! k ! h)"
    using i by (intro sum.cong) (simp_all add: tx(3))
  finally show "y da x ! i ! h = spec_y da x i h"
    by (simp add: spec_y_def)
qed

lemma W_prime_shape:
  "length (W_prime da) = n_hidden da"
  "h < n_hidden da \<Longrightarrow> length (W_prime da ! h) = length (W da)"
  "h < n_hidden da \<Longrightarrow> k < length (W da) \<Longrightarrow> W_prime da ! h ! k = W da ! k ! h"
  by (simp_all add: W_prime_def transposed_def col_def)

lemma z_shape:
  assumes "shapes_ok da x"
  shows "length (z da x) = length x"
    and "i < length x \<Longrightarrow> length (z da x ! i) = n_visible da"
    and "i < length x \<Longrightarrow> k < n_visible da \<Longrightarrow> z da x ! i ! k = spec_z da x i k"
proof -
  have lW: "length (W da) = n_visible da"
    and lb: "length (b_prime da) = n_visible da"
    using assms by (simp_all add: shapes_ok_def is_matrix_def)
  note yy = y_shape[OF assms]
  show "length (z da x) = length x"
    by (simp add: z_def get_reconstructed_input_def add_row_def dot_shape yy(1))
  assume i: "i < length x"
  then show "length (z da x ! i) = n_visible da"
    by (simp add: z_def get_reconstructed_input_def add_row_def dot_shape yy(1) lb)
  assume k: "k < n_visible da"
  have "z da x ! i ! k
      = sigmoid (dot (n_visible da) (y da x) (W_prime da) ! i ! k + b_prime da ! k)"
    unfolding z_def get_reconstructed_input_def
    using i k by (intro affine_sigmoid_nth) (simp_all add: dot_shape yy(1) lb)
  also have "dot (n_visible da) (y da x) (W_prime da) ! i ! k
      = (\<Sum>h<n_hidden da. y da x ! i ! h * W_prime da ! h ! k)"
    using i k by (intro dot_nth) (simp_all add: yy W_prime_shape)
  also have "\<dots> = (\<Sum>h<n_hidden da. spec_y da x i h * W da ! k ! h)"
    using i k by (intro sum.cong) (simp_all add: yy(3) W_prime_shape lW)
  finally show "z da x ! i ! k = spec_z da x i k"
    by (simp add: spec_z_def)
qed

lemma L_shape:
  assumes "shapes_ok da x"
  shows "length (L da x) = length x"
    and "i < length x \<Longrightarrow> L da x ! i = spec_L da x i"
proof -
  have mx: "is_matrix (length x) (n_visible da) x"
    using assms by (simp add: shapes_ok_def)
  note zz = z_shape[OF assms]
  show "length (L da x) = length x"
    by (simp add: L_def zz(1))
  assume i: "i < length x"
  have row: "length (x ! i) = n_visible da" using is_matrix_row[OF mx i] .
  have "L da x ! i
      = - sum_list (map2 (\<lambda>xk zk. xk * ln zk + (1 - xk) * ln (1 - zk)) (x ! i) (z da x ! i))"
    using i by (simp add: L_def zz(1))
  also have "sum_list (map2 (\<lambda>xk zk. xk * ln zk + (1 - xk) * ln (1 - zk)) (x ! i) (z da x ! i))
      = (\<Sum>k<n_visible da. x ! i ! k * ln (z da x ! i ! k)
                              + (1 - x ! i ! k) * ln (1 - z da x ! i ! k))"
    using row zz(2)[OF i] by (rule sum_list_map2_nth)
  also have "\<dots> = (\<Sum>k<n_visible da. x ! i ! k * ln (spec_z da x i k)
                              + (1 - x ! i ! k) * ln (1 - spec_z da x i k))"
    using i by (intro sum.cong) (simp_all add: zz(3))
  finally show "L da x ! i = spec_L da x i"
    by (simp add: spec_L_def)
qed

lemma mean_L_spec:
  assumes "shapes_ok da x"
  shows "mean (L da x) = (\<Sum>i<length x. spec_L da x i) / real (length x)"
proof -
  note LL = L_shape[OF assms]
  have "sum_list (L da x) = (\<Sum>i<length x. L da x ! i)"
    by (simp add: sum_list_sum_nth LL(1) atLeast0LessThan)
  also have "\<dots> = (\<Sum>i<length x. spec_L da x i)"
    by (intro sum.cong) (simp_all add: LL(2))
  finally show ?thesis by (simp add: mean_def LL(1))
qed

lemma penalty_spec:
  assumes "shapes_ok da x"
  shows "L1_hidden_penalty da x =
     sparsity_lambda da * (\<Sum>h<n_hidden da. (\<Sum>i<length x. spec_y da x i h) / real (length x))"
proof -
  note yy = y_shape[OF assms]
  have "sum_list (mean_axis0 (n_hidden da) (y da x))
      = (\<Sum>h<n_hidden da. mean (col (y da x) h))"
    by (simp add: mean_axis0_def sum_list_upt)
  also have "\<dots> = (\<Sum>h<n_hidden da. (\<Sum>i<length x. spec_y da x i h) / real (length x))"
  proof (intro sum.cong refl)
    fix h assume "h \<in> {..<n_hidden da}"
    then have h: "h < n_hidden da" by simp
    have "sum_list (col (y da x) h) = (\<Sum>i<length x. y da x ! i ! h)"
      by (simp add: sum_list_col yy(1))
    also have "\<dots> = (\<Sum>i<length x. spec_y da x i h)"
      using h by (intro sum.cong) (simp_all add: yy(3))
    finally show "mean (col (y da x) h) = (\<Sum>i<length x. spec_y da x i h) / real (length x)"
      by (simp add: mean_def col_def yy(1))
  qed
  finally show ?thesis by (simp add: L1_hidden_penalty_def)
qed

lemma cost_spec: "shapes_ok da x \<Longrightarrow> cost da x = spec_cost da x"
  by (simp add: cost_def spec_cost_def mean_L_spec penalty_spec)

section \<open>Properties of the model\<close>

lemma loss_value:
  assumes "shapes_ok da x" and "x \<noteq> []"
  shows "loss da x =
     Inr (cost da x, da\<lparr>theano_rng := advance (theano_rng da) (length x * n_visible da)\<rparr>)"
proof -
  have "is_matrix (length x) (n_visible da) x"
    using assms(1) by (simp add: shapes_ok_def)
  then have "shape x = (length x, n_visible da)"
    using assms(2) by (rule shape_matrix)
  then have "snd (get_corrupted_input da x (corruption_level da))
      = advance (theano_rng da) (length x * n_visible da)"
    by (simp add: get_corrupted_input_def binomial_def)
  then show ?thesis using assms by (simp add: loss_def)
qed

text \<open>
  Claim C1: for every non-empty batch \<open>x\<close> of \<open>n_visible\<close> columns and parameters of the
  model's shapes, the cost that the model computes is
  \<open>mean_i(L_i) + sparsity_lambda * \<Sum>_h mean_i(y_{i,h})\<close>, where
  \<open>L_i = - \<Sum>_k [x_{i,k} log z_{i,k} + (1 - x_{i,k}) log (1 - z_{i,k})]\<close> weighs the
  reconstruction \<open>z\<close>, obtained from the corrupted input, against the entries of the
  original, uncorrupted \<open>x\<close> (\<open>spec_cost\<close>, \<open>spec_L\<close>, \<open>spec_z\<close>, \<open>spec_y\<close>).  The compiled
  function returns this value and advances the random streams by one draw per entry.
\<close>

theorem cost_is_spec_cost:
  assumes "shapes_ok da x" and "x \<noteq> []"
  shows "cost da x = spec_cost da x \<and>
         loss da x =
           Inr (spec_cost da x,
                da\<lparr>theano_rng := advance (theano_rng da) (length x * n_visible da)\<rparr>)"
  using loss_value[OF assms] cost_spec[OF assms(1)] by simp

theorem cost_is_spec_cost_witness:
  "shapes_ok small_dA [[1, 0], [1 / 2, 1]] \<and> [[1, 0], [1 / 2, 1 :: real]] \<noteq> [] \<and>
   cost small_dA [[1, 0], [1 / 2, 1]] = spec_cost small_dA [[1, 0], [1 / 2, 1]]"
proof -
  have s: "shapes_ok small_dA [[1, 0], [1 / 2, 1]]"
    by (simp add: shapes_ok_def is_matrix_def small_dA_def)
  have n: "[[1, 0], [1 / 2, 1 :: real]] \<noteq> []" by simp
  show ?thesis using s cost_is_spec_cost[OF s n] by simp
qed

text \<open>
  Claim C5: corrupting a batch with corruption level 0 returns the batch itself,
  whatever the state \<open>g\<close> of the random source.
\<close>

theorem corruption_zero_is_identity:
  assumes "is_matrix m n x"
  shows "fst (get_corrupted_input (da\<lparr>theano_rng := g\<rparr>) x 0) = x"
  using assms by (rule corrupt0)

theorem corruption_zero_is_identity_witness:
  "is_matrix 2 2 [[1, 0], [1 / 2, 1]] \<and>
   fst (get_corrupted_input (small_dA\<lparr>theano_rng := \<lparr>draws = (\<lambda>k. - 1), pos = 7\<rparr>\<rparr>)
          [[1, 0], [1 / 2, 1]] 0) = [[1, 0], [1 / 2, 1]]"
proof -
  have m: "is_matrix 2 2 [[1, 0], [1 / 2, 1]]"
    by (simp add: is_matrix_def)
  show ?thesis using m corruption_zero_is_identity[OF m] by simp
qed

text \<open>
  Claim C6: the decode matrix is the transpose of the current value of \<open>W\<close>.  After any
  update of \<open>W\<close> to a value \<open>Wn\<close>, \<open>W_prime\<close> is the transpose of \<open>Wn\<close>, entry \<open>(h, k)\<close> of
  it is entry \<open>(k, h)\<close> of \<open>Wn\<close>, the tensors the model owns are \<open>W\<close>, \<open>b\<close> and \<open>b_prime\<close>
  only, and the reconstruction \<open>sigmoid(hidden W' + b')\<close> is computed from \<open>Wn\<close>.
\<close>

theorem W_prime_is_transpose_of_current_W:
  assumes "i < length hidden" and "length (hidden ! i) = n_hidden da"
    and "k < n_visible da" and "length Wn = n_visible da"
    and "length (b_prime da) = n_visible da" and "h < n_hidden da"
  shows "W_prime (da\<lparr>W := Wn\<rparr>) = transposed (n_hidden da) Wn \<and>
         W_prime (da\<lparr>W := Wn\<rparr>) ! h ! k = Wn ! k ! h \<and>
         params (da\<lparr>W := Wn\<rparr>) = [Matrix Wn, Vector (b da), Vector (b_prime da)] \<and>
         get_reconstructed_input (da\<lparr>W := Wn\<rparr>) hidden ! i ! k =
           sigmoid ((\<Sum>j<n_hidden da. hidden ! i ! j * Wn ! k ! j) + b_prime da ! k)"
proof -
  let ?da = "da\<lparr>W := Wn\<rparr>"
  have "get_reconstructed_input ?da hidden ! i ! k
      = sigmoid (dot (n_visible da) hidden (W_prime ?da) ! i ! k + b_prime da ! k)"
    unfolding get_reconstructed_input_def
    using assms affine_sigmoid_nth[of i "dot (n_visible da) hidden (W_prime ?da)" k "b_prime da"]
    by (simp add: dot_shape)
  also have "dot (n_visible da) hidden (W_prime ?da) ! i ! k
      = (\<Sum>j<n_hidden da. hidden ! i ! j * W_prime ?da ! j ! k)"
    using assms by (intro dot_nth) (simp_all add: W_prime_shape)
  also have "\<dots> = (\<Sum>j<n_hidden da. hidden ! i ! j * Wn ! k ! j)"
    using assms by (intro sum.cong) (simp_all add: W_prime_shape)
  finally show ?thesis
    using assms by (simp add: W_prime_shape params_def) (simp add: W_prime_def)
qed

theorem W_prime_is_transpose_of_current_W_witness:
  "(0::nat) < length [[1 / 2 :: real]] \<and> length ([[1 / 2 :: real]] ! 0) = n_hidden small_dA \<and>
   1 < n_visible small_dA \<and> length [[2], [3 :: real]] = n_visible small_dA \<and>
   length (b_prime small_dA) = n_visible small_dA \<and> 0 < n_hidden small_dA \<and>
   W_prime (small_dA\<lparr>W := [[2], [3]]\<rparr>) ! 0 ! 1 = [[2], [3]] ! 1 ! 0 \<and>
   get_reconstructed_input (small_dA\<lparr>W := [[2], [3]]\<rparr>) [[1 / 2]] ! 0 ! 1 =
     sigmoid ((\<Sum>j<n_hidden small_dA. [[1 / 2]] ! 0 ! j * [[2], [3]] ! 1 ! j)
              + b_prime small_dA ! 1)"
proof -
  have h: "(0::nat) < length [[1 / 2 :: real]]"
    "length ([[1 / 2 :: real]] ! 0) = n_hidden small_dA"
    "1 < n_visible small_dA" "length [[2], [3 :: real]] = n_visible small_dA"
    "length (b_prime small_dA) = n_visible small_dA" "0 < n_hidden small_dA"
    by (simp_all add: small_dA_def)
  from W_prime_is_transpose_of_current_W[OF h] h show ?thesis by blast
qed

text \<open>
  Construction without supplied tensors succeeds exactly when the two dimensions are
  not both 0.
\<close>

lemma dA_init_fresh_value:
  assumes "0 < nh + nv"
  shows "dA_init RS g0 trng nv nh None None None lv lam =
     Inr (\<lparr>n_visible = nv, n_hidden = nh,
           W = fst (uniform (case trng of None \<Rightarrow> snd (randint g0 (2 ^ 30)) | Some t \<Rightarrow> g0)
                      (- 4 * sqrt (6 / real (nh + nv))) (4 * sqrt (6 / real (nh + nv))) (nv, nh)),
           b = replicate nh 0, b_prime = replicate nv 0,
           theano_rng = (case trng of None \<Rightarrow> RS (fst (randint g0 (2 ^ 30))) | Some t \<Rightarrow> t),
           corruption_level = lv, sparsity_lambda = lam\<rparr>,
          snd (uniform (case trng of None \<Rightarrow> snd (randint g0 (2 ^ 30)) | Some t \<Rightarrow> g0)
                 (- 4 * sqrt (6 / real (nh + nv))) (4 * sqrt (6 / real (nh + nv))) (nv, nh)))"
  using assms
  by (cases trng) (simp_all add: dA_init_def Let_def split: prod.splits)

lemma dA_init_zero_dims:
  "dA_init RS g0 trng 0 0 None bhid bvis lv lam = Inl ZeroDivisionError"
  by (cases trng) (simp_all add: dA_init_def Let_def split: prod.splits)

text \<open>
  Claim C7: a model constructed without externally supplied tensors has \<open>b\<close> and
  \<open>b_prime\<close> all zero, of lengths \<open>n_hidden\<close> and \<open>n_visible\<close>, and every entry of its
  \<open>n_visible\<close> by \<open>n_hidden\<close> matrix \<open>W\<close> lies between \<open>- 4 sqrt(6 / (n_hidden + n_visible))\<close>
  and \<open>4 sqrt(6 / (n_hidden + n_visible))\<close>.  The construction succeeds whenever the
  dimensions are not both 0.
\<close>

theorem dA_init_fresh:
  "(0 < nh + nv \<longrightarrow> (\<exists>da g. dA_init RS g0 trng nv nh None None None lv lam = Inr (da, g))) \<and>
   (\<forall>da g. dA_init RS g0 trng nv nh None None None lv lam = Inr (da, g) \<longrightarrow>
      n_visible da = nv \<and> n_hidden da = nh \<and>
      b da = replicate nh 0 \<and> b_prime da = replicate nv 0 \<and>
      is_matrix nv nh (W da) \<and>
      (\<forall>r\<in>set (W da). \<forall>w\<in>set r.
         - 4 * sqrt (6 / real (nh + nv)) \<le> w \<and> w \<le> 4 * sqrt (6 / real (nh + nv))))"
proof (rule conjI)
  show "0 < nh + nv \<longrightarrow>
        (\<exists>da g. dA_init RS g0 trng nv nh None None None lv lam = Inr (da, g))"
    by (simp add: dA_init_fresh_value)
next
  show "\<forall>da g. dA_init RS g0 trng nv nh None None None lv lam = Inr (da, g) \<longrightarrow>
      n_visible da = nv \<and> n_hidden da = nh \<and>
      b da = replicate nh 0 \<and> b_prime da = replicate nv 0 \<and>
      is_matrix nv nh (W da) \<and>
      (\<forall>r\<in>set (W da). \<forall>w\<in>set r.
         - 4 * sqrt (6 / real (nh + nv)) \<le> w \<and> w \<le> 4 * sqrt (6 / real (nh + nv)))"
  proof (intro allI impI)
    fix da g
    assume init: "dA_init RS g0 trng nv nh None None None lv lam = Inr (da, g)"
    have pos: "0 < nh + nv"
    proof (rule ccontr)
      assume "\<not> 0 < nh + nv"
      then have "nh = 0" "nv = 0" by simp_all
      with init show False by (simp add: dA_init_zero_dims)
    qed
    let ?g = "case trng of None \<Rightarrow> snd (randint g0 (2 ^ 30)) | Some t \<Rightarrow> g0"
    let ?lo = "- 4 * sqrt (6 / real (nh + nv))"
    let ?hi = "4 * sqrt (6 / real (nh + nv))"
    have da: "n_visible da = nv" "n_hidden da = nh" "b da = replicate nh 0"
      "b_prime da = replicate nv 0" "W da = fst (uniform ?g ?lo ?hi (nv, nh))"
      using init unfolding dA_init_fresh_value[OF pos] by auto
    have le: "?lo \<le> ?hi" by simp
    have u: "uniform ?g ?lo ?hi (nv, nh) = (W da, snd (uniform ?g ?lo ?hi (nv, nh)))"
      by (simp add: da(5))
    note ent = uniform_entries[OF le u]
    show "n_visible da = nv \<and> n_hidden da = nh \<and>
      b da = replicate nh 0 \<and> b_prime da = replicate nv 0 \<and>
      is_matrix nv nh (W da) \<and>
      (\<forall>r\<in>set (W da). \<forall>w\<in>set r. ?lo \<le> w \<and> w \<le> ?hi)"
      using da(1-4) ent by blast
  qed
qed

theorem dA_init_fresh_witness:
  "0 < (1::nat) + 2 \<and>
   (\<exists>da g. dA_init (\<lambda>seed. zero_rng) zero_rng None 2 1 None None None 0 0 = Inr (da, g) \<and>
      b da = replicate 1 0 \<and> b_prime da = replicate 2 0 \<and> is_matrix 2 1 (W da) \<and>
      (\<forall>r\<in>set (W da). \<forall>w\<in>set r.
         - 4 * sqrt (6 / real (1 + 2)) \<le> w \<and> w \<le> 4 * sqrt (6 / real (1 + 2))))"
proof -
  note t = dA_init_fresh[of 1 2 "\<lambda>seed. zero_rng" zero_rng None 0 0]
  have p: "0 < (1::nat) + 2" by simp
  with t obtain da g
    where i: "dA_init (\<lambda>seed. zero_rng) zero_rng None 2 1 None None None 0 0 = Inr (da, g)"
    by blast
  with t show ?thesis using p by blast
qed








end
